theory Spec2Isabelle
  imports Main "HOL-Library.Monad_Syntax" "HOL-Library.Sublist" "HOL-Library.AList"
begin

section \<open>JavaScript values\<close>

text \<open>
  The transformer (\<^verbatim>\<open>transformer.ts\<close>) and the error mapper (\<^verbatim>\<open>proxy.ts\<close>) work on
  values of TypeScript type \<^verbatim>\<open>unknown\<close>: whatever \<^verbatim>\<open>JSON.parse\<close> produced, plus
  \<^verbatim>\<open>undefined\<close>, which the code itself creates when it reads a missing property.

  A string is the list of its UTF-16 code units, each below 256: a \<open>char\<close> is the code unit
  of that number, so \<open>CHR 0xE9\<close> is the letter e with an acute accent and \<open>CHR 0xA0\<close> the
  no-break space. Strings with other code units have no counterpart here.

  A number is a double whose value is an integer, an infinity or \<^verbatim>\<open>NaN\<close>: \<open>Fin i\<close> is
  the double of value \<open>i\<close>. Negative zero is not told apart from zero (they are equal under
  \<^verbatim>\<open>===\<close>, both falsy, both printed \<^verbatim>\<open>0\<close>); fractional doubles have no counterpart here.

  An object is the list of its own properties in enumeration order: the keys that are array
  indices first, in ascending order, then the others in order of creation. Of what an object
  inherits from its prototype, the model has the two things the code can run into:
  \<^verbatim>\<open>toString\<close>, which string conversion calls, and the setter \<^verbatim>\<open>__proto__\<close>, which an
  assignment to that name triggers. Reading an inherited method through \<^verbatim>\<open>v[k]\<close> or
  \<^verbatim>\<open>k in v\<close> is not modelled; the names the code reads are none of them, and a field
  list is taken not to name one.

  A computation that can throw returns an \<open>option\<close>: \<open>None\<close> is a thrown
  \<^verbatim>\<open>TypeError\<close>, the only exception the modelled code can raise.
\<close>

datatype jsnum = NaN | Fin int | PosInf | NegInf

datatype jsval =
    JUndefined
  | JNull
  | JBool bool
  | JNum jsnum
  | JStr string
  | JArr "jsval list"
  | JObj "(string \<times> jsval) list"

text \<open>\<^verbatim>\<open>Boolean(v)\<close>, the test of \<^verbatim>\<open>if (v)\<close>, \<^verbatim>\<open>!v\<close>, \<^verbatim>\<open>a && b\<close> and \<^verbatim>\<open>c ? a : b\<close>.\<close>

fun truthy :: "jsval \<Rightarrow> bool" where
  "truthy JUndefined = False"
| "truthy JNull = False"
| "truthy (JBool b) = b"
| "truthy (JNum NaN) = False"
| "truthy (JNum (Fin n)) = (n \<noteq> 0)"
| "truthy (JNum PosInf) = True"
| "truthy (JNum NegInf) = True"
| "truthy (JStr s) = (s \<noteq> [])"
| "truthy (JArr xs) = True"
| "truthy (JObj kvs) = True"

text \<open>\<^verbatim>\<open>typeof v === 'object'\<close>: true of \<^verbatim>\<open>null\<close> and of arrays too.\<close>

fun is_object :: "jsval \<Rightarrow> bool" where
  "is_object JNull = True"
| "is_object (JArr xs) = True"
| "is_object (JObj kvs) = True"
| "is_object v = False"

text \<open>\<^verbatim>\<open>Array.isArray(v)\<close>.\<close>

fun is_array :: "jsval \<Rightarrow> bool" where
  "is_array (JArr xs) = True"
| "is_array v = False"

text \<open>A loop whose body can throw: the first exception ends it.\<close>

primrec mapM :: "('a \<Rightarrow> 'b option) \<Rightarrow> 'a list \<Rightarrow> 'b list option" where
  "mapM f [] = Some []"
| "mapM f (x # xs) = do { y \<leftarrow> f x; ys \<leftarrow> mapM f xs; Some (y # ys) }"

lemma mapM_cong [fundef_cong]:
  "xs = ys \<Longrightarrow> (\<And>x. x \<in> set ys \<Longrightarrow> f x = g x) \<Longrightarrow> mapM f xs = mapM g ys"
  by (induction ys arbitrary: xs) auto

subsection \<open>Digits and doubles\<close>

definition is_digit :: "char \<Rightarrow> bool" where
  "is_digit c = (c \<in> set ''0123456789'')"

definition digit_val :: "char \<Rightarrow> nat" where
  "digit_val c = length (takeWhile (\<lambda>d. d \<noteq> c) ''0123456789'')"

definition digits_val :: "string \<Rightarrow> nat" where
  "digits_val ds = foldl (\<lambda>a c. 10 * a + digit_val c) 0 ds"

fun show_nat :: "nat \<Rightarrow> string" where
  "show_nat n =
     (if n < 10 then [''0123456789'' ! n]
      else show_nat (n div 10) @ [''0123456789'' ! (n mod 10)])"

declare show_nat.simps [simp del]

fun bit_length :: "nat \<Rightarrow> nat" where
  "bit_length n = (if n = 0 then 0 else Suc (bit_length (n div 2)))"

declare bit_length.simps [simp del]

text \<open>
  The double nearest to a natural number, ties to the even significand, as a natural number.
  A result of \<open>2^1024\<close> or more stands for an overflow to \<^verbatim>\<open>Infinity\<close>.
\<close>

definition to_double :: "nat \<Rightarrow> nat" where
  "to_double n =
     (if n < 2 ^ 53 then n
      else let e = bit_length n - 53;
               q = n div 2 ^ e;
               r = n mod 2 ^ e;
               h = 2 ^ (e - 1)
           in (if h < r \<or> (r = h \<and> odd q) then q + 1 else q) * 2 ^ e)"

text \<open>
  \<^verbatim>\<open>Number::toString\<close> on a double \<open>x\<close> of integer value, \<open>2^53\<close> or more. The digits are
  those of the least \<open>k\<close> and the \<open>s\<close> of \<open>k\<close> digits such that
  \<open>s * 10^(n - k)\<close> is read back as \<open>x\<close>, the \<open>s\<close> nearest to \<open>x\<close> when there
  are two and the even one at a tie; \<open>digits_for x k\<close> lists the choice \<open>(s, n)\<close>. They are
  followed by zeros up to \<open>n \<le> 21\<close> digits, and written with an exponent beyond.
\<close>

definition digits_for :: "nat \<Rightarrow> nat \<Rightarrow> (nat \<times> nat) list" where
  "digits_for x k =
     (let cs = concat (map (\<lambda>n. map (\<lambda>s. (s, n))
                   [x div 10 ^ (n - k), x div 10 ^ (n - k) + 1])
                 [length (show_nat x), length (show_nat x) + 1]);
          ok = filter (\<lambda>(s, n). 10 ^ (k - 1) \<le> s \<and> s < 10 ^ k \<and>
                                 to_double (s * 10 ^ (n - k)) = x) cs;
          dist = (\<lambda>(s, n). if s * 10 ^ (n - k) < x then x - s * 10 ^ (n - k)
                            else s * 10 ^ (n - k) - x);
          near = filter (\<lambda>c. list_all (\<lambda>d. dist c \<le> dist d) ok) ok
      in if list_ex (\<lambda>(s, n). even s) near then filter (\<lambda>(s, n). even s) near else near)"

definition show_large :: "nat \<Rightarrow> string" where
  "show_large x =
     (case concat (map (\<lambda>k. map (Pair k) (digits_for x k)) [1..<min 18 (Suc (length (show_nat x)))]) of
        [] \<Rightarrow> show_nat x
      | (k, s, n) # _ \<Rightarrow>
          if n \<le> 21 then show_nat s @ replicate (n - k) (CHR ''0'')
          else if k = 1 then show_nat s @ ''e+'' @ show_nat (n - 1)
          else hd (show_nat s) # CHR ''.'' # tl (show_nat s) @ ''e+'' @ show_nat (n - 1))"

definition show_int :: "int \<Rightarrow> string" where
  "show_int i =
     (if i < 0 then CHR ''-'' # (if nat (- i) < 2 ^ 53 then show_nat (nat (- i))
                                 else show_large (nat (- i)))
      else if nat i < 2 ^ 53 then show_nat (nat i) else show_large (nat i))"

fun show_num :: "jsnum \<Rightarrow> string" where
  "show_num NaN = ''NaN''"
| "show_num (Fin i) = show_int i"
| "show_num PosInf = ''Infinity''"
| "show_num NegInf = ''-Infinity''"

subsection \<open>Conversion to strings\<close>

text \<open>\<^verbatim>\<open>Array.prototype.join\<close> on elements already converted to strings.\<close>

fun join :: "string \<Rightarrow> string list \<Rightarrow> string" where
  "join sep [] = []"
| "join sep [s] = s"
| "join sep (s # t # ss) = s @ sep @ join sep (t # ss)"

text \<open>
  The abstract operation \<^verbatim>\<open>ToString\<close>, as applied by template literals, by
  \<^verbatim>\<open>join\<close>, by \<^verbatim>\<open>parseInt\<close> and by the \<^verbatim>\<open>Error\<close> constructor. An array
  is joined with commas, its \<^verbatim>\<open>null\<close> and \<^verbatim>\<open>undefined\<close> elements as the empty string.
  An object is converted by its method \<^verbatim>\<open>toString\<close>: the inherited one gives
  \<^verbatim>\<open>[object Object]\<close>, but an own property of that name hides it, and since no value here
  is a function the conversion then falls back on \<^verbatim>\<open>valueOf\<close>, gets the object itself and
  throws a \<^verbatim>\<open>TypeError\<close>.
\<close>

fun to_string :: "jsval \<Rightarrow> string option" where
  "to_string JUndefined = Some ''undefined''"
| "to_string JNull = Some ''null''"
| "to_string (JBool b) = Some (if b then ''true'' else ''false'')"
| "to_string (JNum n) = Some (show_num n)"
| "to_string (JStr s) = Some s"
| "to_string (JArr xs) = do {
     ss \<leftarrow> mapM (\<lambda>x. if x = JNull \<or> x = JUndefined then Some [] else to_string x) xs;
     Some (join '','' ss)
   }"
| "to_string (JObj kvs) =
     (if ''toString'' \<in> set (map fst kvs) then None else Some ''[object Object]'')"

subsection \<open>Property access\<close>

text \<open>The entries of an array-like value: its elements under their decimal indices.\<close>

definition indexed :: "jsval list \<Rightarrow> (string \<times> jsval) list" where
  "indexed xs = zip (map show_nat [0..<length xs]) xs"

text \<open>
  The own properties of a value, as \<^verbatim>\<open>Object.entries\<close> lists them; it throws on
  \<^verbatim>\<open>null\<close> and \<^verbatim>\<open>undefined\<close>. A string has its code units as properties, a
  boolean or a number has none.
\<close>

fun object_entries :: "jsval \<Rightarrow> (string \<times> jsval) list option" where
  "object_entries JUndefined = None"
| "object_entries JNull = None"
| "object_entries (JBool b) = Some []"
| "object_entries (JNum n) = Some []"
| "object_entries (JStr s) = Some (indexed (map (\<lambda>c. JStr [c]) s))"
| "object_entries (JArr xs) = Some (indexed xs)"
| "object_entries (JObj kvs) = Some kvs"

text \<open>
  \<^verbatim>\<open>v[k]\<close> and \<^verbatim>\<open>v.k\<close>: a \<^verbatim>\<open>TypeError\<close> on \<^verbatim>\<open>null\<close> and
  \<^verbatim>\<open>undefined\<close>, \<^verbatim>\<open>undefined\<close> for a property the value does not have.
\<close>

fun get_prop :: "jsval \<Rightarrow> string \<Rightarrow> jsval option" where
  "get_prop JUndefined k = None"
| "get_prop JNull k = None"
| "get_prop (JBool b) k = Some JUndefined"
| "get_prop (JNum n) k = Some JUndefined"
| "get_prop (JStr s) k =
     Some (if k = ''length'' then JNum (Fin (int (length s)))
           else case map_of (indexed (map (\<lambda>c. JStr [c]) s)) k of
                  Some v \<Rightarrow> v | None \<Rightarrow> JUndefined)"
| "get_prop (JArr xs) k =
     Some (if k = ''length'' then JNum (Fin (int (length xs)))
           else case map_of (indexed xs) k of Some v \<Rightarrow> v | None \<Rightarrow> JUndefined)"
| "get_prop (JObj kvs) k = Some (case map_of kvs k of Some v \<Rightarrow> v | None \<Rightarrow> JUndefined)"

text \<open>\<^verbatim>\<open>k in v\<close>: a \<^verbatim>\<open>TypeError\<close> unless \<open>v\<close> is an object or an array.\<close>

fun has_prop :: "string \<Rightarrow> jsval \<Rightarrow> bool option" where
  "has_prop k (JArr xs) = Some (k = ''length'' \<or> k \<in> set (map fst (indexed xs)))"
| "has_prop k (JObj kvs) = Some (k \<in> set (map fst kvs))"
| "has_prop k v = None"

text \<open>
  A key that is an array index: the decimal form, without leading zeros, of a number below
  \<open>2^32 - 1\<close>. An object lists these keys first, in ascending order.
\<close>

definition is_index_key :: "string \<Rightarrow> bool" where
  "is_index_key k =
     (k \<noteq> [] \<and> list_all is_digit k \<and> (k = ''0'' \<or> hd k \<noteq> CHR ''0'') \<and>
      digits_val k < 4294967295)"

fun insert_index :: "string \<times> jsval \<Rightarrow> (string \<times> jsval) list \<Rightarrow> (string \<times> jsval) list" where
  "insert_index kv [] = [kv]"
| "insert_index kv (p # ps) =
     (if is_index_key (fst p) \<and> digits_val (fst p) < digits_val (fst kv)
      then p # insert_index kv ps else kv # p # ps)"

text \<open>
  \<^verbatim>\<open>result[k] = v\<close> on the property list of an object under construction, one that began
  as \<^verbatim>\<open>{}\<close>. The name \<^verbatim>\<open>__proto__\<close> reaches the setter inherited from
  \<^verbatim>\<open>Object.prototype\<close>, which creates no property; any other name replaces the value of
  the property if there is one, and creates it at its place in the enumeration order if not.
  (Once the setter has run the object has another prototype, and a second assignment to
  \<^verbatim>\<open>__proto__\<close> may then create a property; the loops over \<^verbatim>\<open>Object.entries\<close> assign
  each name once, and a field list is taken not to name \<^verbatim>\<open>__proto__\<close> twice.)
\<close>

definition assign :: "(string \<times> jsval) list \<Rightarrow> string \<times> jsval \<Rightarrow> (string \<times> jsval) list" where
  "assign result kv =
     (if fst kv = ''__proto__'' then result
      else if fst kv \<in> set (map fst result) then AList.update (fst kv) (snd kv) result
      else if is_index_key (fst kv) then insert_index kv result
      else result @ [kv])"

subsection \<open>Parsing\<close>

text \<open>
  The white space of \<^verbatim>\<open>\s\<close> and of \<^verbatim>\<open>parseInt\<close> among the code units below 256: tab,
  LF, VT, FF, CR, space and the no-break space.
\<close>

definition is_space :: "char \<Rightarrow> bool" where
  "is_space c =
     (c \<in> set [CHR 0x09, CHR 0x0A, CHR 0x0B, CHR 0x0C, CHR 0x0D, CHR 0x20, CHR 0xA0])"

text \<open>
  \<^verbatim>\<open>parseInt(s, 10)\<close>: skip white space, read a sign, read the longest run of digits;
  \<^verbatim>\<open>NaN\<close> when there is no digit, and otherwise the double nearest to the number read.
\<close>

definition parseInt :: "string \<Rightarrow> jsnum" where
  "parseInt s =
     (let t = dropWhile is_space s;
          neg = (t \<noteq> [] \<and> hd t = CHR ''-'');
          u = (if t \<noteq> [] \<and> (hd t = CHR ''-'' \<or> hd t = CHR ''+'') then tl t else t);
          ds = takeWhile is_digit u;
          m = to_double (digits_val ds)
      in if ds = [] then NaN
         else if 2 ^ 1024 \<le> m then (if neg then NegInf else PosInf)
         else Fin (if neg then - int m else int m))"

text \<open>\<^verbatim>\<open>s.includes(pat)\<close>.\<close>

fun str_includes :: "string \<Rightarrow> string \<Rightarrow> bool" where
  "str_includes [] pat = (pat = [])"
| "str_includes (c # s) pat = (prefix pat (c # s) \<or> str_includes s pat)"

section \<open>The error classes (errors.ts)\<close>

text \<open>
  One record for \<^verbatim>\<open>MCPNotionError\<close> and its subclasses. The field \<open>type\<close> names the
  class; \<open>retryAfter\<close> is the extra field of \<^verbatim>\<open>RateLimitError\<close>, \<open>None\<close> in every other
  class and when it is \<^verbatim>\<open>undefined\<close>. The constructors take the values the mapper passes
  at run time, whatever their declared types. The \<^verbatim>\<open>Error\<close> constructor stores its
  argument converted to a string (the empty string for \<^verbatim>\<open>undefined\<close>), and the
  suggestion of a \<^verbatim>\<open>ValidationError\<close> is a template around the field: both conversions
  can throw, so a constructor returns an \<open>option\<close>.
\<close>

record MCPNotionError =
  type :: string
  code :: string
  httpStatus :: int
  message :: string
  retryable :: bool
  suggestion :: string
  operation :: "string option"
  params :: "jsval option"
  retryAfter :: "jsnum option"

definition e_acute :: string where "e_acute = [CHR 0xE9]"
definition e_grave :: string where "e_grave = [CHR 0xE8]"
definition a_grave :: string where "a_grave = [CHR 0xE0]"
definition e_circumflex :: string where "e_circumflex = [CHR 0xEA]"

definition new_MCPNotionError ::
  "string \<Rightarrow> string \<Rightarrow> int \<Rightarrow> jsval \<Rightarrow> bool \<Rightarrow> string \<Rightarrow> string option \<Rightarrow> jsval option
   \<Rightarrow> MCPNotionError option" where
  "new_MCPNotionError ty c st msg r sug op ps = do {
     m \<leftarrow> (if msg = JUndefined then Some [] else to_string msg);
     Some \<lparr> type = ty, code = c, httpStatus = st, message = m, retryable = r,
            suggestion = sug, operation = op, params = ps, retryAfter = None \<rparr>
   }"

definition AuthenticationError ::
  "jsval \<Rightarrow> string option \<Rightarrow> jsval option \<Rightarrow> int \<Rightarrow> MCPNotionError option" where
  "AuthenticationError msg op ps st =
     new_MCPNotionError ''AuthenticationError''
       (if st = 403 then ''forbidden'' else ''unauthorized'') st msg False
       (if st = 403
        then ''Votre int'' @ e_acute @ ''gration n'a pas acc'' @ e_grave @ ''s '' @ a_grave
             @ '' cette ressource. V'' @ e_acute @ ''rifiez les permissions.''
        else ''V'' @ e_acute
             @ ''rifiez que votre token NOTION_TOKEN commence par \"ntn_\" et est valide.'')
       op ps"

definition ValidationError ::
  "jsval \<Rightarrow> jsval \<Rightarrow> string option \<Rightarrow> jsval option \<Rightarrow> MCPNotionError option" where
  "ValidationError msg field op ps = do {
     sug \<leftarrow> (if truthy field
             then do {
               f \<leftarrow> to_string field;
               Some (''Le champ \"'' @ f @ ''\" est invalide ou manquant.'')
             }
             else Some (''V'' @ e_acute @ ''rifiez vos param'' @ e_grave @ ''tres.''));
     new_MCPNotionError ''ValidationError'' ''validation_error'' 400 msg False sug op ps
   }"

definition PermissionError ::
  "jsval \<Rightarrow> string option \<Rightarrow> jsval option \<Rightarrow> MCPNotionError option" where
  "PermissionError msg op ps =
     new_MCPNotionError ''PermissionError'' ''forbidden'' 403 msg False
       (''Votre int'' @ e_acute @ ''gration n'a pas les permissions n'' @ e_acute
        @ ''cessaires. Ajoutez la ressource via les param'' @ e_grave @ ''tres d'int''
        @ e_acute @ ''gration.'')
       op ps"

definition NotFoundError ::
  "jsval \<Rightarrow> string option \<Rightarrow> string option \<Rightarrow> jsval option \<Rightarrow> MCPNotionError option" where
  "NotFoundError msg resourceType op ps =
     new_MCPNotionError ''NotFoundError'' ''object_not_found'' 404 msg False
       (case resourceType of
          None \<Rightarrow> ''Ressource non trouv'' @ e_acute @ ''e.''
        | Some rt \<Rightarrow>
            if rt = [] then ''Ressource non trouv'' @ e_acute @ ''e.''
            else ''La ressource de type \"'' @ rt @ ''\" n'existe pas ou n'est pas partag''
                 @ e_acute @ ''e avec votre int'' @ e_acute @ ''gration.'')
       op ps"

definition ConflictError ::
  "jsval \<Rightarrow> string option \<Rightarrow> jsval option \<Rightarrow> MCPNotionError option" where
  "ConflictError msg op ps =
     new_MCPNotionError ''ConflictError'' ''conflict'' 409 msg True
       (''Un conflit est survenu (modification simultan'' @ e_acute @ ''e). Veuillez r''
        @ e_acute @ ''essayer.'')
       op ps"

definition RateLimitError ::
  "jsval \<Rightarrow> jsnum option \<Rightarrow> string option \<Rightarrow> jsval option \<Rightarrow> MCPNotionError option" where
  "RateLimitError msg ra op ps = do {
     e \<leftarrow> new_MCPNotionError ''RateLimitError'' ''rate_limited'' 429 msg True
           (case ra of
              None \<Rightarrow> ''Ralentissez les requ'' @ e_circumflex @ ''tes.''
            | Some n \<Rightarrow>
                if truthy (JNum n)
                then ''Attendez '' @ show_num n @ '' seconde(s) avant de r'' @ e_acute
                     @ ''essayer.''
                else ''Ralentissez les requ'' @ e_circumflex @ ''tes.'')
           op ps;
     Some (e \<lparr> retryAfter := ra \<rparr>)
   }"

definition ServerError ::
  "jsval \<Rightarrow> string option \<Rightarrow> jsval option \<Rightarrow> MCPNotionError option" where
  "ServerError msg op ps =
     new_MCPNotionError ''ServerError'' ''internal_server_error'' 500 msg True
       (''Une erreur serveur est survenue. Veuillez r'' @ e_acute
        @ ''essayer dans quelques instants.'')
       op ps"

section \<open>The error mapper (proxy.ts)\<close>

text \<open>
  \<^verbatim>\<open>HttpClientError\<close> as the mapper reads it. The class \<^verbatim>\<open>Headers\<close> is not part of
  the modelled files: \<open>headers\<close> is its method \<^verbatim>\<open>get\<close>, from a header name to the
  header's value, \<open>None\<close> for \<^verbatim>\<open>null\<close>.
\<close>

record HttpClientError =
  message :: string
  status :: int
  data :: jsval
  headers :: "(string \<Rightarrow> string option) option"

text \<open>\<^verbatim>\<open>originalMessage.replace(/^\d+\s*/, '')\<close>.\<close>

definition strip_status :: "string \<Rightarrow> string" where
  "strip_status s =
     (if takeWhile is_digit s = [] then s else dropWhile is_space (dropWhile is_digit s))"

text \<open>
  The first block of \<^verbatim>\<open>mapNotionErrorToMCPError\<close>: the local variables
  \<^verbatim>\<open>message\<close>, \<^verbatim>\<open>errorCode\<close>, \<^verbatim>\<open>field\<close> and \<^verbatim>\<open>retryAfter\<close> after the body
  has been read. \<^verbatim>\<open>parseInt\<close> converts its argument to a string first, which can throw.
\<close>

definition read_error_data ::
  "string \<Rightarrow> jsval \<Rightarrow> (jsval \<times> jsval \<times> jsval \<times> jsnum option) option" where
  "read_error_data originalMessage d =
     (if is_object d \<and> d \<noteq> JNull then do {
        m \<leftarrow> get_prop d ''message'';
        c \<leftarrow> get_prop d ''code'';
        f \<leftarrow> get_prop d ''field'';
        r \<leftarrow> get_prop d ''retry_after'';
        ra \<leftarrow> (if r \<noteq> JUndefined
               then (case r of
                       JNum n \<Rightarrow> Some (Some n)
                     | _ \<Rightarrow> do { s \<leftarrow> to_string r; Some (Some (parseInt s)) })
               else Some None);
        Some (if truthy m then m else JStr (strip_status originalMessage),
              if truthy c then c else JUndefined,
              if truthy f then f else JUndefined,
              ra)
      } else Some (JStr (strip_status originalMessage), JUndefined, JUndefined, None))"

text \<open>The chain of \<^verbatim>\<open>operation.includes\<close> tests of \<^verbatim>\<open>case 404\<close>.\<close>

definition inferResourceType :: "string option \<Rightarrow> string option" where
  "inferResourceType oper =
     (case oper of
        None \<Rightarrow> None
      | Some op \<Rightarrow>
          if op = [] then None
          else if str_includes op ''block'' then Some ''block''
          else if str_includes op ''page'' then Some ''page''
          else if str_includes op ''data_source'' \<or> str_includes op ''data-source''
            then Some ''database''
          else if str_includes op ''database'' then Some ''database''
          else if str_includes op ''user'' then Some ''user''
          else None)"

text \<open>The header check of \<^verbatim>\<open>case 429\<close>, from the value \<^verbatim>\<open>retryAfter\<close> has so far.\<close>

definition retry_after_header ::
  "(string \<Rightarrow> string option) option \<Rightarrow> jsnum option \<Rightarrow> jsnum option" where
  "retry_after_header hs ra =
     (case hs of
        None \<Rightarrow> ra
      | Some get \<Rightarrow>
          (case get ''Retry-After'' of
             None \<Rightarrow> ra
           | Some h \<Rightarrow>
               if h = [] then ra
               else if parseInt h = NaN then ra else Some (parseInt h)))"

definition mapNotionErrorToMCPError ::
  "HttpClientError \<Rightarrow> string option \<Rightarrow> jsval option \<Rightarrow> MCPNotionError option" where
  "mapNotionErrorToMCPError error oper prms = do {
     (msg, errorCode, fld, ra) \<leftarrow>
       read_error_data (HttpClientError.message error) (data error);
     if status error = 400 then ValidationError msg fld oper prms
     else if status error = 401 then AuthenticationError msg oper prms 401
     else if status error = 403 then
       (if errorCode = JStr ''permission_required''
        then PermissionError msg oper prms
        else AuthenticationError msg oper prms 403)
     else if status error = 404 then
       NotFoundError msg (inferResourceType oper) oper prms
     else if status error = 409 then ConflictError msg oper prms
     else if status error = 429 then
       RateLimitError msg (retry_after_header (headers error) ra) oper prms
     else if status error \<in> {500, 502, 503, 504} then
       ServerError msg oper prms
     else ServerError msg oper prms
   }"

subsection \<open>Reference readings used in the properties\<close>

text \<open>The seven class names.\<close>

definition error_types :: "string list" where
  "error_types =
     [''AuthenticationError'', ''ValidationError'', ''PermissionError'', ''NotFoundError'',
      ''ConflictError'', ''RateLimitError'', ''ServerError'']"

text \<open>
  Resource-type inference as a scan: the markers in priority order, each with the resource
  type it stands for, and the type of the first marker the operation id contains.
\<close>

definition resource_markers :: "(string \<times> string) list" where
  "resource_markers =
     [(''block'', ''block''), (''page'', ''page''), (''data_source'', ''database''),
      (''data-source'', ''database''), (''database'', ''database''), (''user'', ''user'')]"

definition first_marker :: "string \<Rightarrow> string option" where
  "first_marker op = map_option snd (List.find (\<lambda>m. str_includes op (fst m)) resource_markers)"

text \<open>
  The \<^verbatim>\<open>retry_after\<close> property of the body: \<open>None\<close> when the body is not an object or
  has no such property.
\<close>

definition body_field :: "jsval \<Rightarrow> jsval option" where
  "body_field d =
     (case d of
        JObj kvs \<Rightarrow>
          (case map_of kvs ''retry_after'' of
             None \<Rightarrow> None
           | Some JUndefined \<Rightarrow> None
           | Some v \<Rightarrow> Some v)
      | _ \<Rightarrow> None)"

text \<open>
  What the body says about the delay when its \<^verbatim>\<open>retry_after\<close> is a number or a string:
  the number as it is, the string through \<^verbatim>\<open>parseInt\<close>.
\<close>

definition body_retry_after :: "jsval \<Rightarrow> jsnum option" where
  "body_retry_after d =
     (case body_field d of
        Some (JNum n) \<Rightarrow> Some n
      | Some (JStr s) \<Rightarrow> Some (parseInt s)
      | _ \<Rightarrow> None)"

text \<open>The bodies whose \<^verbatim>\<open>retry_after\<close> is absent, a number or a string.\<close>

definition plain_retry_after :: "jsval \<Rightarrow> bool" where
  "plain_retry_after d =
     (case body_field d of
        None \<Rightarrow> True
      | Some (JNum n) \<Rightarrow> True
      | Some (JStr s) \<Rightarrow> True
      | Some v \<Rightarrow> False)"

text \<open>
  What the response headers say about the delay: the \<^verbatim>\<open>Retry-After\<close> header when it is
  there, is not empty and starts (after white space and a sign) with a digit.
\<close>

definition header_retry_after :: "(string \<Rightarrow> string option) option \<Rightarrow> jsnum option" where
  "header_retry_after hs =
     (case hs of
        None \<Rightarrow> None
      | Some get \<Rightarrow>
          (case get ''Retry-After'' of
             None \<Rightarrow> None
           | Some h \<Rightarrow>
               if h = [] \<or> parseInt h = NaN then None else Some (parseInt h)))"

section \<open>The response transformer (transformer.ts)\<close>

subsection \<open>extractNotionValue\<close>

text \<open>\<^verbatim>\<open>xs.filter(Boolean).join('')\<close>.\<close>

definition join_truthy :: "jsval list \<Rightarrow> string option" where
  "join_truthy xs = do { ss \<leftarrow> mapM to_string (filter truthy xs); Some (join [] ss) }"

text \<open>The callback of \<^verbatim>\<open>texts.map\<close> in the cases \<^verbatim>\<open>title\<close> and \<^verbatim>\<open>rich_text\<close>.\<close>

definition text_content :: "jsval \<Rightarrow> jsval option" where
  "text_content t = do {
     ty \<leftarrow> get_prop t ''type'';
     if ty = JStr ''text'' then do {
       tx \<leftarrow> get_prop t ''text'';
       if truthy tx \<and> is_object tx then get_prop tx ''content'' else Some JNull
     } else Some JNull
   }"

definition extract_rich_text :: "jsval \<Rightarrow> string \<Rightarrow> jsval option" where
  "extract_rich_text property ty = do {
     payload \<leftarrow> get_prop property ty;
     case payload of
       JArr texts \<Rightarrow> do {
         cs \<leftarrow> mapM text_content texts;
         joined \<leftarrow> join_truthy cs;
         let content = JStr joined in
         case texts of
           [] \<Rightarrow> Some content
         | first # rest \<Rightarrow> do {
             ftext \<leftarrow> get_prop first ''text'';
             if truthy ftext \<and> is_object ftext then do {
               link \<leftarrow> get_prop ftext ''link'';
               if truthy link \<and> is_object link then do {
                 url \<leftarrow> get_prop link ''url'';
                 Some (JObj [(''content'', content), (''url'', url)])
               } else Some content
             } else Some content
           }
       }
     | _ \<Rightarrow> Some payload
   }"

text \<open>The cases \<^verbatim>\<open>select\<close> and \<^verbatim>\<open>status\<close>: the name of the option under key \<open>k\<close>.\<close>

definition extract_name :: "jsval \<Rightarrow> string \<Rightarrow> jsval option" where
  "extract_name property k = do {
     s \<leftarrow> get_prop property k;
     if truthy s \<and> is_object s then get_prop s ''name'' else Some JNull
   }"

definition extract_multi_select :: "jsval \<Rightarrow> jsval option" where
  "extract_multi_select property = do {
     ms \<leftarrow> get_prop property ''multi_select'';
     case ms of
       JArr xs \<Rightarrow> do {
         ns \<leftarrow> mapM (\<lambda>s. get_prop s ''name'') xs;
         Some (JArr (filter truthy ns))
       }
     | _ \<Rightarrow> Some (JArr [])
   }"

definition extract_date :: "jsval \<Rightarrow> jsval option" where
  "extract_date property = do {
     d \<leftarrow> get_prop property ''date'';
     if truthy d \<and> is_object d then do {
       e \<leftarrow> get_prop d ''end'';
       s \<leftarrow> get_prop d ''start'';
       if truthy e then Some (JObj [(''start'', s), (''end'', e)]) else Some s
     } else Some JNull
   }"

text \<open>The callback of \<^verbatim>\<open>files.map\<close>.\<close>

definition extract_file :: "jsval \<Rightarrow> jsval option" where
  "extract_file file = do {
     ty \<leftarrow> get_prop file ''type'';
     ext \<leftarrow> (if ty = JStr ''external'' then get_prop file ''external'' else Some JUndefined);
     if ty = JStr ''external'' \<and> truthy ext then do {
       u \<leftarrow> get_prop ext ''url'';
       Some (JObj [(''url'', u)])
     } else do {
       fl \<leftarrow> (if ty = JStr ''file'' then get_prop file ''file'' else Some JUndefined);
       if ty = JStr ''file'' \<and> truthy fl then do {
         u \<leftarrow> get_prop fl ''url'';
         x \<leftarrow> get_prop fl ''expiry_time'';
         Some (JObj [(''url'', u), (''expiry_time'', x)])
       } else Some JNull
     }
   }"

definition extract_files :: "jsval \<Rightarrow> jsval option" where
  "extract_files property = do {
     fs \<leftarrow> get_prop property ''files'';
     case fs of
       JArr xs \<Rightarrow> do { rs \<leftarrow> mapM extract_file xs; Some (JArr (filter truthy rs)) }
     | _ \<Rightarrow> Some (JArr [])
   }"

text \<open>The object \<^verbatim>\<open>{ id: u.id, name: u.name }\<close>.\<close>

definition id_and_name :: "jsval \<Rightarrow> jsval option" where
  "id_and_name u = do {
     i \<leftarrow> get_prop u ''id'';
     n \<leftarrow> get_prop u ''name'';
     Some (JObj [(''id'', i), (''name'', n)])
   }"

definition extract_people :: "jsval \<Rightarrow> jsval option" where
  "extract_people property = do {
     ps \<leftarrow> get_prop property ''people'';
     case ps of
       JArr xs \<Rightarrow> do { rs \<leftarrow> mapM id_and_name xs; Some (JArr rs) }
     | _ \<Rightarrow> Some (JArr [])
   }"

definition extract_relation :: "jsval \<Rightarrow> jsval option" where
  "extract_relation property = do {
     r \<leftarrow> get_prop property ''relation'';
     if is_array r then Some r else Some (JArr [])
   }"

text \<open>
  A chain \<^verbatim>\<open>if (k1 in o) return o.k1; if (k2 in o) return o.k2; ...\<close>, ending in
  \<^verbatim>\<open>return null\<close>.
\<close>

primrec first_present :: "string list \<Rightarrow> jsval \<Rightarrow> jsval option" where
  "first_present [] o' = Some JNull"
| "first_present (k # ks) o' = do {
     p \<leftarrow> has_prop k o';
     if p then get_prop o' k else first_present ks o'
   }"

definition extract_formula :: "jsval \<Rightarrow> jsval option" where
  "extract_formula property = do {
     f \<leftarrow> get_prop property ''formula'';
     if truthy f \<and> is_object f
     then first_present [''string'', ''number'', ''boolean'', ''date''] f
     else Some JNull
   }"

text \<open>The last test of the rollup chain, \<^verbatim>\<open>'incomplete' in rollup\<close>, returns \<^verbatim>\<open>null\<close>
  as the fall-through does.\<close>

definition extract_rollup :: "jsval \<Rightarrow> jsval option" where
  "extract_rollup property = do {
     r \<leftarrow> get_prop property ''rollup'';
     if truthy r \<and> is_object r
     then first_present [''number'', ''date'', ''array''] r
     else Some JNull
   }"

text \<open>The cases \<^verbatim>\<open>created_by\<close> and \<^verbatim>\<open>last_edited_by\<close>.\<close>

definition extract_user :: "jsval \<Rightarrow> string \<Rightarrow> jsval option" where
  "extract_user property k = do {
     u \<leftarrow> get_prop property k;
     if truthy u \<and> is_object u then id_and_name u else Some JNull
   }"

definition extract_unique_id :: "jsval \<Rightarrow> jsval option" where
  "extract_unique_id property = do {
     u \<leftarrow> get_prop property ''unique_id'';
     if truthy u \<and> is_object u then do {
       num \<leftarrow> get_prop u ''number'';
       if num \<noteq> JUndefined then do {
         prefix \<leftarrow> get_prop u ''prefix'';
         if truthy prefix then do {
           p \<leftarrow> to_string prefix;
           n \<leftarrow> to_string num;
           Some (JStr (p @ ''-'' @ n))
         } else Some num
       } else Some JNull
     } else Some JNull
   }"

definition extract_place :: "jsval \<Rightarrow> jsval option" where
  "extract_place property = do {
     pl \<leftarrow> get_prop property ''place'';
     if truthy pl \<and> is_object pl then Some pl else Some JNull
   }"

text \<open>The \<^verbatim>\<open>switch (type)\<close>: each \<^verbatim>\<open>case\<close> compares with \<^verbatim>\<open>===\<close>.\<close>

definition extractNotionValue :: "jsval \<Rightarrow> jsval option" where
  "extractNotionValue property =
     (if \<not> truthy property \<or> \<not> is_object property then Some property
      else do {
        ty \<leftarrow> get_prop property ''type'';
        if \<not> truthy ty then Some property
        else if ty = JStr ''title'' then extract_rich_text property ''title''
        else if ty = JStr ''rich_text'' then extract_rich_text property ''rich_text''
        else if ty = JStr ''select'' then extract_name property ''select''
        else if ty = JStr ''multi_select'' then extract_multi_select property
        else if ty = JStr ''date'' then extract_date property
        else if ty = JStr ''number'' then get_prop property ''number''
        else if ty = JStr ''checkbox'' then get_prop property ''checkbox''
        else if ty = JStr ''url'' then get_prop property ''url''
        else if ty = JStr ''email'' then get_prop property ''email''
        else if ty = JStr ''phone_number'' then get_prop property ''phone_number''
        else if ty = JStr ''files'' then extract_files property
        else if ty = JStr ''people'' then extract_people property
        else if ty = JStr ''relation'' then extract_relation property
        else if ty = JStr ''formula'' then extract_formula property
        else if ty = JStr ''rollup'' then extract_rollup property
        else if ty = JStr ''status'' then extract_name property ''status''
        else if ty = JStr ''created_time'' then get_prop property ''created_time''
        else if ty = JStr ''created_by'' then extract_user property ''created_by''
        else if ty = JStr ''last_edited_time'' then get_prop property ''last_edited_time''
        else if ty = JStr ''last_edited_by'' then extract_user property ''last_edited_by''
        else if ty = JStr ''unique_id'' then extract_unique_id property
        else if ty = JStr ''place'' then extract_place property
        else Some property
      })"

subsection \<open>The reduced format\<close>

definition isMetadataField :: "string \<Rightarrow> bool" where
  "isMetadataField key =
     (key \<in> set [''id'', ''created_time'', ''last_edited_time'', ''created_by'',
                 ''last_edited_by'', ''archived'', ''in_trash'', ''url'', ''public_url'',
                 ''parent'', ''object'', ''type'', ''has_children'', ''next_cursor'',
                 ''prev_cursor''])"

definition transformProperties :: "jsval \<Rightarrow> jsval option" where
  "transformProperties properties = do {
     es \<leftarrow> object_entries properties;
     rs \<leftarrow> mapM (\<lambda>(propName, propValue).
             if truthy propValue \<and> is_object propValue
             then do { r \<leftarrow> extractNotionValue propValue; Some (propName, r) }
             else Some (propName, propValue)) es;
     Some (JObj (foldl assign [] rs))
   }"

text \<open>The test \<^verbatim>\<open>fields && fields.length > 0\<close>.\<close>

fun fields_given :: "string list option \<Rightarrow> bool" where
  "fields_given (Some (f # fs)) = True"
| "fields_given flds = False"

text \<open>Arrays and objects: the values \<^verbatim>\<open>transformValue\<close> descends into.\<close>

fun is_compound :: "jsval \<Rightarrow> bool" where
  "is_compound (JArr xs) = True"
| "is_compound (JObj kvs) = True"
| "is_compound v = False"

text \<open>A property value or entry of a value is smaller than the value: the measure of the
  recursion below.\<close>

lemma size_elem: "x \<in> set xs \<Longrightarrow> size x < size (JArr xs)"
  by (induction xs) auto

lemma size_entry: "(k, v) \<in> set kvs \<Longrightarrow> size v < size (JObj kvs)"
  by (induction kvs) auto

lemma indexed_elem: "(k, v) \<in> set (indexed xs) \<Longrightarrow> v \<in> set xs"
  unfolding indexed_def by (rule set_zip_rightD)

lemma entry_smaller:
  "object_entries obj = Some es \<Longrightarrow> (k, v) \<in> set es \<Longrightarrow> is_compound v \<Longrightarrow> size v < size obj"
proof (cases obj)
  case (JStr s)
  assume "object_entries obj = Some es" "(k, v) \<in> set es" "is_compound v"
  with JStr have "v \<in> set (map (\<lambda>c. JStr [c]) s)" by (auto dest: indexed_elem)
  with \<open>is_compound v\<close> show ?thesis by auto
next
  case (JArr xs)
  assume "object_entries obj = Some es" "(k, v) \<in> set es"
  with JArr have "v \<in> set xs" by (auto dest: indexed_elem)
  with JArr show ?thesis using size_elem by blast
next
  case (JObj kvs)
  assume "object_entries obj = Some es" "(k, v) \<in> set es"
  with JObj show ?thesis using size_entry by auto
qed auto

lemma prop_smaller:
  "has_prop k obj = Some True \<Longrightarrow> get_prop obj k = Some v \<Longrightarrow> is_compound v \<Longrightarrow> size v < size obj"
proof (cases obj)
  case (JArr xs)
  assume "get_prop obj k = Some v" "is_compound v"
  with JArr have "v \<in> set xs"
    by (auto split: if_splits option.splits dest: map_of_SomeD indexed_elem)
  with JArr show ?thesis using size_elem by blast
next
  case (JObj kvs)
  assume "get_prop obj k = Some v" "is_compound v"
  with JObj have "(k, v) \<in> set kvs"
    by (auto split: option.splits dest: map_of_SomeD)
  with JObj show ?thesis using size_entry by blast
qed auto

text \<open>
  \<^verbatim>\<open>transformObject\<close> and \<^verbatim>\<open>transformValue\<close> call each other. The type annotation
  of \<^verbatim>\<open>transformObject\<close> promises an object, but \<^verbatim>\<open>transformReduced\<close> passes it
  every element of a \<^verbatim>\<open>results\<close> array, so it is modelled on all values. Each loop
  collects the assignments \<^verbatim>\<open>result[key] = ...\<close> it performs and applies them in order.
\<close>

function transformObject :: "jsval \<Rightarrow> string list option \<Rightarrow> jsval option"
  and transformValue :: "jsval \<Rightarrow> string \<Rightarrow> jsval option" where
  "transformObject obj flds =
     (if fields_given flds then do {
        rs \<leftarrow> mapM (\<lambda>field. do {
                p \<leftarrow> has_prop field obj;
                if p then do {
                  v \<leftarrow> get_prop obj field;
                  r \<leftarrow> transformValue v field;
                  Some [(field, r)]
                } else Some []
              }) (the flds);
        Some (JObj (foldl assign [] (concat rs)))
      } else do {
        es \<leftarrow> object_entries obj;
        rs \<leftarrow> mapM (\<lambda>(key, v).
                if isMetadataField key then Some (key, v)
                else if key = ''properties'' \<and> is_object v \<and> v \<noteq> JNull then do {
                  r \<leftarrow> transformProperties v;
                  Some (key, r)
                } else do {
                  r \<leftarrow> transformValue v key;
                  Some (key, r)
                }) es;
        Some (JObj (foldl assign [] rs))
      })"
| "transformValue JNull key = Some JNull"
| "transformValue JUndefined key = Some JUndefined"
| "transformValue (JArr items) key = do {
     rs \<leftarrow> mapM (\<lambda>item. if truthy item \<and> is_object item
                           then transformObject item None else Some item) items;
     Some (JArr rs)
   }"
| "transformValue (JObj kvs) key = transformObject (JObj kvs) None"
| "transformValue (JBool b) key = Some (JBool b)"
| "transformValue (JNum n) key = Some (JNum n)"
| "transformValue (JStr s) key = Some (JStr s)"
  by pat_completeness auto

termination
  apply (relation "measure (\<lambda>x. case x of
            Inl (obj, flds) \<Rightarrow> 2 * size obj + 2
          | Inr (v, key) \<Rightarrow> if is_compound v then 2 * size v + 3 else 0)")
  apply simp
  subgoal for obj flds x p v
    using prop_smaller[of x obj v] by auto
  subgoal for obj flds es x k v
    using entry_smaller[of obj es k v] by auto
  subgoal for items key item
    using size_elem[of item items] by auto
  subgoal by simp
  done

declare transformObject.simps [simp del]

text \<open>\<^verbatim>\<open>extractMetadata\<close>: the pagination fields the object has.\<close>

definition extractMetadata :: "jsval \<Rightarrow> (string \<times> jsval) list option" where
  "extractMetadata obj = do {
     rs \<leftarrow> mapM (\<lambda>key. do {
             p \<leftarrow> has_prop key obj;
             if p then do { v \<leftarrow> get_prop obj key; Some [(key, v)] } else Some []
           }) [''next_cursor'', ''prev_cursor'', ''has_more'', ''type'', ''object''];
     Some (foldl assign [] (concat rs))
   }"

fun transformReduced :: "jsval \<Rightarrow> string list option \<Rightarrow> jsval option" where
  "transformReduced JNull flds = Some JNull"
| "transformReduced JUndefined flds = Some JUndefined"
| "transformReduced (JArr items) flds = do {
     rs \<leftarrow> mapM (\<lambda>item. transformReduced item flds) items;
     Some (JArr rs)
   }"
| "transformReduced (JBool b) flds = Some (JBool b)"
| "transformReduced (JNum n) flds = Some (JNum n)"
| "transformReduced (JStr s) flds = Some (JStr s)"
| "transformReduced (JObj kvs) flds = do {
     p \<leftarrow> has_prop ''results'' (JObj kvs);
     res \<leftarrow> get_prop (JObj kvs) ''results'';
     case res of
       JArr items \<Rightarrow>
         if p then do {
           md \<leftarrow> extractMetadata (JObj kvs);
           rs \<leftarrow> mapM (\<lambda>item. transformObject item flds) items;
           Some (JObj (assign md (''results'', JArr rs)))
         } else transformObject (JObj kvs) flds
     | _ \<Rightarrow> transformObject (JObj kvs) flds
   }"

subsection \<open>The success_only format\<close>

datatype operation_type = Read | Write

definition detectOperationType :: "jsval \<Rightarrow> operation_type option" where
  "detectOperationType d =
     (if \<not> truthy d \<or> \<not> is_object d then Some Read
      else do {
        a \<leftarrow> has_prop ''id'' d;
        b \<leftarrow> has_prop ''created_time'' d;
        c \<leftarrow> has_prop ''last_edited_time'' d;
        es \<leftarrow> object_entries d;
        Some (if a \<and> b \<and> c \<and> length es \<le> 10 then Write else Read)
      })"

definition processed_message :: "nat \<Rightarrow> string" where
  "processed_message n = ''Successfully processed '' @ show_nat n @ '' item(s)''"

definition transformSuccessOnly :: "jsval \<Rightarrow> operation_type \<Rightarrow> jsval option" where
  "transformSuccessOnly d operationType =
     (if \<not> truthy d \<or> \<not> is_object d then Some (JObj [(''success'', JBool True)])
      else do {
        has_id \<leftarrow> has_prop ''id'' d;
        if has_id then do {
          i \<leftarrow> get_prop d ''id'';
          has_ct \<leftarrow> has_prop ''created_time'' d;
          ct \<leftarrow> get_prop d ''created_time'';
          has_lt \<leftarrow> has_prop ''last_edited_time'' d;
          lt \<leftarrow> get_prop d ''last_edited_time'';
          has_res \<leftarrow> has_prop ''results'' d;
          res \<leftarrow> get_prop d ''results'';
          let r0 = [(''success'', JBool True), (''id'', i)];
              r1 = (if has_ct then assign r0 (''created_time'', ct) else r0);
              r2 = (if has_lt then assign r1 (''last_edited_time'', lt) else r1)
          in case res of
               JArr xs \<Rightarrow>
                 if has_res
                 then Some (JObj (assign (assign r2 (''count'', JNum (Fin (int (length xs)))))
                                    (''message'', JStr (processed_message (length xs)))))
                 else Some (JObj (assign r2 (''message'', JStr ''Operation successful'')))
             | _ \<Rightarrow> Some (JObj (assign r2 (''message'', JStr ''Operation successful'')))
        } else
          (case d of
             JArr xs \<Rightarrow>
               Some (JObj [(''success'', JBool True),
                           (''count'', JNum (Fin (int (length xs)))),
                           (''message'', JStr (processed_message (length xs)))])
           | _ \<Rightarrow> Some (JObj [(''success'', JBool True)]))
      })"

subsection \<open>transform\<close>

record TransformConfig =
  mode :: "string option"
  fields' :: "string list option"
  operationType :: "operation_type option"

text \<open>
  \<^verbatim>\<open>transform\<close>, with the transformer's \<^verbatim>\<open>defaultMode\<close> as first argument. The mode
  is a string: the type \<^verbatim>\<open>OutputMode\<close> is not checked at run time, and \<^verbatim>\<open>proxy.ts\<close>
  passes the caller's \<^verbatim>\<open>_output\<close> parameter as it comes.
\<close>

definition transform :: "string \<Rightarrow> jsval \<Rightarrow> TransformConfig \<Rightarrow> jsval option" where
  "transform defaultMode d config = do {
     let m = (case mode config of Some m \<Rightarrow> m | None \<Rightarrow> defaultMode);
     ot \<leftarrow> (case operationType config of Some t \<Rightarrow> Some t | None \<Rightarrow> detectOperationType d);
     if m = ''full'' then Some d
     else if m = ''success_only'' then transformSuccessOnly d ot
     else if m = ''reduced'' then transformReduced d (fields' config)
     else Some d
   }"

text \<open>The type tags that have a \<^verbatim>\<open>case\<close> in \<^verbatim>\<open>extractNotionValue\<close>.\<close>

definition known_types :: "string list" where
  "known_types =
     [''title'', ''rich_text'', ''select'', ''multi_select'', ''date'', ''number'',
      ''checkbox'', ''url'', ''email'', ''phone_number'', ''files'', ''people'', ''relation'',
      ''formula'', ''rollup'', ''status'', ''created_time'', ''created_by'',
      ''last_edited_time'', ''last_edited_by'', ''unique_id'', ''place'']"

section \<open>Properties of the error mapper\<close>

lemma str_includes_sublist: "str_includes s pat = sublist pat s"
  by (induction s) (auto simp: sublist_Cons_right)

lemma str_includes_append: "str_includes (a @ pat @ b) pat"
  by (simp add: str_includes_sublist)

lemma show_nat_digits: "set (show_nat n) \<subseteq> set ''0123456789''"
proof (induction n rule: show_nat.induct)
  case (1 n)
  have d: "''0123456789'' ! k \<in> set ''0123456789''" if "k < 10" for k
    using that by (intro nth_mem) simp
  show ?case
  proof (cases "n < 10")
    case True
    then show ?thesis using d[of n] by (subst show_nat.simps) simp
  next
    case False
    then show ?thesis using 1 d[of "n mod 10"] by (subst show_nat.simps) simp
  qed
qed

lemma indexed_no_key:
  assumes "c \<in> set k" "c \<notin> set ''0123456789''"
  shows "map_of (indexed xs) k = None"
proof -
  have "k \<notin> set (map show_nat [0..<length xs])"
    using assms show_nat_digits by auto
  then have "k \<notin> fst ` set (indexed xs)"
    unfolding indexed_def by (auto dest: set_zip_leftD)
  then show ?thesis by (simp add: map_of_eq_None_iff)
qed

lemma indexed_no_retry_after: "map_of (indexed xs) ''retry_after'' = None"
  by (rule indexed_no_key[of "CHR ''r''"]) simp_all

lemma read_error_data_retry_after:
  assumes "read_error_data s d = Some (m, c, f, r)" and "plain_retry_after d"
  shows "r = body_retry_after d"
proof (cases d)
  case (JArr xs)
  with assms(1) show ?thesis
    by (auto simp: read_error_data_def body_retry_after_def body_field_def
          indexed_no_retry_after)
next
  case (JObj kvs)
  with assms show ?thesis
    by (auto simp: read_error_data_def body_retry_after_def body_field_def
          plain_retry_after_def split: option.splits jsval.splits)
qed (use assms(1) in \<open>auto simp: read_error_data_def body_retry_after_def body_field_def\<close>)

lemmas error_class_defs =
  AuthenticationError_def ValidationError_def PermissionError_def NotFoundError_def
  ConflictError_def RateLimitError_def ServerError_def

lemma new_MCPNotionError_Some:
  "new_MCPNotionError ty c st msg r sug op ps = Some e \<Longrightarrow>
     type e = ty \<and> code e = c \<and> httpStatus e = st \<and> retryable e = r \<and> suggestion e = sug \<and>
     operation e = op \<and> params e = ps \<and> retryAfter e = None"
  by (auto simp: new_MCPNotionError_def Option.bind_eq_Some_conv)

lemma new_MCPNotionError_other:
  "new_MCPNotionError ty c st msg r sug op ps = Some e \<Longrightarrow>
     new_MCPNotionError ty c st msg r sug' op' ps = Some (e \<lparr> suggestion := sug', operation := op' \<rparr>)"
  by (auto simp: new_MCPNotionError_def Option.bind_eq_Some_conv)

lemma infer_first_marker:
  "inferResourceType oper = (case oper of None \<Rightarrow> None | Some op \<Rightarrow> first_marker op)"
  by (cases oper) (auto simp: inferResourceType_def first_marker_def resource_markers_def)

lemma first_marker_nonempty: "first_marker op \<noteq> Some []"
  by (auto simp: first_marker_def resource_markers_def)

lemma constructor_flags:
  "ValidationError m f op ps = Some e \<Longrightarrow> type e = ''ValidationError'' \<and> \<not> retryable e"
  "AuthenticationError m op ps st = Some e \<Longrightarrow> type e = ''AuthenticationError'' \<and> \<not> retryable e"
  "PermissionError m op ps = Some e \<Longrightarrow> type e = ''PermissionError'' \<and> \<not> retryable e"
  "NotFoundError m rt op ps = Some e \<Longrightarrow> type e = ''NotFoundError'' \<and> \<not> retryable e"
  "ConflictError m op ps = Some e \<Longrightarrow> type e = ''ConflictError'' \<and> retryable e"
  "RateLimitError m ra op ps = Some e \<Longrightarrow> type e = ''RateLimitError'' \<and> retryable e"
  "ServerError m op ps = Some e \<Longrightarrow> type e = ''ServerError'' \<and> retryable e"
  unfolding error_class_defs
  by (auto simp: Option.bind_eq_Some_conv dest!: new_MCPNotionError_Some)

lemma mapper_cases:
  assumes "mapNotionErrorToMCPError error oper prms = Some e"
  obtains m f where "status error = 400" "ValidationError m f oper prms = Some e"
  | m st where "status error = st" "st = 401 \<or> st = 403" "AuthenticationError m oper prms st = Some e"
  | m where "status error = 403" "PermissionError m oper prms = Some e"
  | m where "status error = 404" "NotFoundError m (inferResourceType oper) oper prms = Some e"
  | m where "status error = 409" "ConflictError m oper prms = Some e"
  | m ra where "status error = 429" "RateLimitError m ra oper prms = Some e"
  | m where "status error \<notin> {400, 401, 403, 404, 409, 429}" "ServerError m oper prms = Some e"
proof -
  obtain x where rd: "read_error_data (HttpClientError.message error) (data error) = Some x"
    using assms unfolding mapNotionErrorToMCPError_def
    by (cases "read_error_data (HttpClientError.message error) (data error)") simp_all
  obtain m c f r where x: "x = (m, c, f, r)"
    by (cases x) auto
  from assms have *: "(if status error = 400 then ValidationError m f oper prms
     else if status error = 401 then AuthenticationError m oper prms 401
     else if status error = 403 then
       (if c = JStr ''permission_required''
        then PermissionError m oper prms
        else AuthenticationError m oper prms 403)
     else if status error = 404 then
       NotFoundError m (inferResourceType oper) oper prms
     else if status error = 409 then ConflictError m oper prms
     else if status error = 429 then
       RateLimitError m (retry_after_header (headers error) r) oper prms
     else if status error \<in> {500, 502, 503, 504} then
       ServerError m oper prms
     else ServerError m oper prms) = Some e"
    unfolding mapNotionErrorToMCPError_def rd x by simp
  consider "status error = 400" | "status error = 401" | "status error = 403"
    | "status error = 404" | "status error = 409" | "status error = 429"
    | "status error \<notin> {400, 401, 403, 404, 409, 429}"
    by auto
  then show thesis
  proof cases
    case 1 with * that(1) show ?thesis by simp
  next
    case 2 with * that(2)[of 401] show ?thesis by simp
  next
    case 3 with * that(2)[of 403] that(3) show ?thesis by (simp split: if_splits)
  next
    case 4 with * that(4) show ?thesis by simp
  next
    case 5 with * that(5) show ?thesis by simp
  next
    case 6 with * that(6) show ?thesis by simp
  next
    case 7 with * that(7) show ?thesis by (simp split: if_splits)
  qed
qed

text \<open>
  C4 at a failing input. A body whose \<^verbatim>\<open>message\<close> is an object with a property named
  \<^verbatim>\<open>toString\<close> reaches the \<^verbatim>\<open>Error\<close> constructor, and one whose
  \<^verbatim>\<open>retry_after\<close> is such an object reaches \<^verbatim>\<open>parseInt\<close>, whatever the status:
  both convert the object to a string, which throws.
\<close>

theorem mapper_throws_on_toString_key:
  "mapNotionErrorToMCPError
     \<lparr> message = ''400 Bad Request'', status = 400,
       data = JObj [(''message'', JObj [(''toString'', JNum (Fin 0))])],
       headers = None \<rparr> None None = None \<and>
   mapNotionErrorToMCPError
     \<lparr> message = ''503 Service Unavailable'', status = 503,
       data = JObj [(''retry_after'', JObj [(''toString'', JNum (Fin 0))])],
       headers = None \<rparr> None None = None"
  by (simp add: mapNotionErrorToMCPError_def read_error_data_def ValidationError_def
        new_MCPNotionError_def)

text \<open>
  C5. The flag \<open>retryable\<close> of a mapped error follows from its class alone: whenever the
  mapper returns an error, its class is one of the seven, \<^verbatim>\<open>ConflictError\<close>,
  \<^verbatim>\<open>RateLimitError\<close> and \<^verbatim>\<open>ServerError\<close> are retryable, and
  \<^verbatim>\<open>AuthenticationError\<close>, \<^verbatim>\<open>ValidationError\<close>, \<^verbatim>\<open>PermissionError\<close> and
  \<^verbatim>\<open>NotFoundError\<close> are not, whatever the status, body, operation and parameters.
\<close>

theorem retryable_by_type:
  assumes "mapNotionErrorToMCPError error oper prms = Some e"
  shows "type e \<in> set error_types \<and>
         (type e \<in> {''ConflictError'', ''RateLimitError'', ''ServerError''} \<longrightarrow> retryable e) \<and>
         (type e \<in> {''AuthenticationError'', ''ValidationError'', ''PermissionError'',
                     ''NotFoundError''} \<longrightarrow> \<not> retryable e)"
  using assms
  by (rule mapper_cases) (simp_all add: error_types_def constructor_flags)

theorem retryable_by_type_witness:
  "\<exists>e. mapNotionErrorToMCPError
          \<lparr> message = ''409 Conflict'', status = 409, data = JUndefined, headers = None \<rparr>
          (Some ''update-a-page'') None = Some e \<and>
        type e = ''ConflictError'' \<and> retryable e"
proof -
  obtain e where e: "mapNotionErrorToMCPError
          \<lparr> message = ''409 Conflict'', status = 409, data = JUndefined, headers = None \<rparr>
          (Some ''update-a-page'') None = Some e"
    by (simp add: mapNotionErrorToMCPError_def read_error_data_def ConflictError_def
          new_MCPNotionError_def)
  moreover from e have "type e = ''ConflictError''"
    by (auto simp: mapNotionErrorToMCPError_def read_error_data_def ConflictError_def
          new_MCPNotionError_def)
  ultimately show ?thesis
    using retryable_by_type[OF e] by simp
qed

text \<open>
  C8. For a status 404 the error the mapper returns is a \<^verbatim>\<open>NotFoundError\<close> with code
  \<^verbatim>\<open>object_not_found\<close> that is not retryable, whatever the operation id. The resource
  type is that of the first marker, in the order block, page, data_source, data-source,
  database, user, that the operation id contains, and the suggestion then names (and so
  contains) that type; without an operation id or without a match the type is unset and the
  suggestion is the generic one. The inference reaches the suggestion only: with any other
  operation id the mapper returns as well, and the two errors differ in nothing but the
  suggestion and the recorded operation id.
\<close>

theorem not_found_resource_type:
  assumes "status error = 404"
      and "mapNotionErrorToMCPError error oper prms = Some e"
  shows "type e = ''NotFoundError'' \<and> code e = ''object_not_found'' \<and> \<not> retryable e \<and>
         httpStatus e = 404 \<and> retryAfter e = None \<and> params e = prms \<and> operation e = oper \<and>
         (case (case oper of None \<Rightarrow> None | Some op \<Rightarrow> first_marker op) of
            None \<Rightarrow> suggestion e = ''Ressource non trouv'' @ e_acute @ ''e.''
          | Some rt \<Rightarrow>
              suggestion e = ''La ressource de type \"'' @ rt
                @ ''\" n'existe pas ou n'est pas partag'' @ e_acute @ ''e avec votre int''
                @ e_acute @ ''gration.'' \<and>
              str_includes (suggestion e) rt) \<and>
         (\<exists>e'. mapNotionErrorToMCPError error oper' prms = Some e' \<and>
               e' = e \<lparr> suggestion := suggestion e', operation := oper' \<rparr>)"
proof -
  from assms obtain m c f r where
    rd: "read_error_data (HttpClientError.message error) (data error) = Some (m, c, f, r)"
    and e: "NotFoundError m (inferResourceType oper) oper prms = Some e"
    by (auto simp: mapNotionErrorToMCPError_def Option.bind_eq_Some_conv)
  note fields = new_MCPNotionError_Some[OF e[unfolded NotFoundError_def]]
  have sug: "case inferResourceType oper of
      None \<Rightarrow> suggestion e = ''Ressource non trouv'' @ e_acute @ ''e.''
    | Some rt \<Rightarrow>
        suggestion e = ''La ressource de type \"'' @ rt
          @ ''\" n'existe pas ou n'est pas partag'' @ e_acute @ ''e avec votre int''
          @ e_acute @ ''gration.'' \<and>
        str_includes (suggestion e) rt"
  proof (cases "inferResourceType oper")
    case None
    with fields show ?thesis by simp
  next
    case (Some rt)
    then have "rt \<noteq> []"
      using first_marker_nonempty by (auto simp: infer_first_marker split: option.splits)
    with fields Some have s: "suggestion e = ''La ressource de type \"'' @ rt
          @ ''\" n'existe pas ou n'est pas partag'' @ e_acute @ ''e avec votre int''
          @ e_acute @ ''gration.''"
      by simp
    show ?thesis
      unfolding Some option.case s
      using str_includes_append[of "''La ressource de type \"''" rt] by simp
  qed
  have other: "\<exists>e'. mapNotionErrorToMCPError error oper' prms = Some e' \<and>
               e' = e \<lparr> suggestion := suggestion e', operation := oper' \<rparr>"
  proof -
    obtain sug' where e': "NotFoundError m (inferResourceType oper') oper' prms =
        Some (e \<lparr> suggestion := sug', operation := oper' \<rparr>)"
      using new_MCPNotionError_other[OF e[unfolded NotFoundError_def]]
      unfolding NotFoundError_def by blast
    have "e \<lparr> suggestion := sug', operation := oper' \<rparr> =
          e \<lparr> suggestion := suggestion (e \<lparr> suggestion := sug', operation := oper' \<rparr>),
              operation := oper' \<rparr>"
      by simp
    with rd assms(1) e' show ?thesis
      by (simp add: mapNotionErrorToMCPError_def)
  qed
  from fields sug other show ?thesis
    unfolding infer_first_marker[symmetric] by simp
qed

theorem not_found_resource_type_witness:
  "\<exists>e. mapNotionErrorToMCPError
          \<lparr> message = ''404 Not Found'', status = 404, data = JUndefined, headers = None \<rparr>
          (Some ''retrieve-a-block'') None = Some e \<and>
        type e = ''NotFoundError'' \<and> code e = ''object_not_found'' \<and> \<not> retryable e \<and>
        str_includes (suggestion e) ''block''"
proof -
  have s: "status \<lparr> message = ''404 Not Found'', status = 404, data = JUndefined,
                  headers = None \<rparr> = 404"
    by simp
  obtain e where e: "mapNotionErrorToMCPError
          \<lparr> message = ''404 Not Found'', status = 404, data = JUndefined, headers = None \<rparr>
          (Some ''retrieve-a-block'') None = Some e"
    by (simp add: mapNotionErrorToMCPError_def read_error_data_def NotFoundError_def
          new_MCPNotionError_def)
  from not_found_resource_type[OF s e] e show ?thesis
    by (simp add: first_marker_def resource_markers_def)
qed

text \<open>
  C1, as the code has it. For a status 429 and a body whose \<^verbatim>\<open>retry_after\<close> is absent,
  a number or a string, the error the mapper returns is a \<^verbatim>\<open>RateLimitError\<close> whose
  \<open>retryAfter\<close> is the value of the \<^verbatim>\<open>Retry-After\<close> header whenever the headers give
  one that parses, and otherwise what the body says: the number as it is, the string through
  \<^verbatim>\<open>parseInt\<close>, or nothing. A header that does not parse is ignored, which leaves the
  body's value, and leaves \<open>retryAfter\<close> unset when the body has none.
\<close>

theorem rate_limit_retry_after:
  assumes "status error = 429"
      and "plain_retry_after (data error)"
      and "mapNotionErrorToMCPError error oper prms = Some e"
  shows "type e = ''RateLimitError'' \<and>
         retryAfter e = (case header_retry_after (headers error) of
                           Some n \<Rightarrow> Some n
                         | None \<Rightarrow> body_retry_after (data error))"
proof -
  from assms(1,3) obtain m c f r e0 where
    rd: "read_error_data (HttpClientError.message error) (data error) = Some (m, c, f, r)"
    and e0: "new_MCPNotionError ''RateLimitError'' ''rate_limited'' 429 m True
              (case retry_after_header (headers error) r of
                 None \<Rightarrow> ''Ralentissez les requ'' @ e_circumflex @ ''tes.''
               | Some n \<Rightarrow>
                   if truthy (JNum n)
                   then ''Attendez '' @ show_num n @ '' seconde(s) avant de r'' @ e_acute
                        @ ''essayer.''
                   else ''Ralentissez les requ'' @ e_circumflex @ ''tes.'')
              oper prms = Some e0"
    and e: "e = e0 \<lparr> retryAfter := retry_after_header (headers error) r \<rparr>"
    by (auto simp: mapNotionErrorToMCPError_def RateLimitError_def Option.bind_eq_Some_conv)
  from rd assms(2) have "r = body_retry_after (data error)"
    by (rule read_error_data_retry_after)
  moreover have "retry_after_header hs ra =
      (case header_retry_after hs of Some n \<Rightarrow> Some n | None \<Rightarrow> ra)" for hs ra
    by (simp add: retry_after_header_def header_retry_after_def split: option.splits)
  ultimately show ?thesis
    using new_MCPNotionError_Some[OF e0] e by simp
qed

theorem rate_limit_retry_after_witness:
  "\<exists>e. mapNotionErrorToMCPError
          \<lparr> message = ''429 Too Many Requests'', status = 429,
            data = JObj [(''message'', JStr ''Rate limited''), (''retry_after'', JStr ''15'')],
            headers = Some (map_of [(''Retry-After'', ''soon'')]) \<rparr> None None = Some e \<and>
        type e = ''RateLimitError'' \<and> retryAfter e = Some (Fin 15)"
proof -
  have s: "status \<lparr> message = ''429 Too Many Requests'', status = 429,
            data = JObj [(''message'', JStr ''Rate limited''), (''retry_after'', JStr ''15'')],
            headers = Some (map_of [(''Retry-After'', ''soon'')]) \<rparr> = 429"
    by simp
  have p: "plain_retry_after (data \<lparr> message = ''429 Too Many Requests'', status = 429,
            data = JObj [(''message'', JStr ''Rate limited''), (''retry_after'', JStr ''15'')],
            headers = Some (map_of [(''Retry-After'', ''soon'')]) \<rparr>)"
    by (simp add: plain_retry_after_def body_field_def)
  obtain e where e: "mapNotionErrorToMCPError
          \<lparr> message = ''429 Too Many Requests'', status = 429,
            data = JObj [(''message'', JStr ''Rate limited''), (''retry_after'', JStr ''15'')],
            headers = Some (map_of [(''Retry-After'', ''soon'')]) \<rparr> None None = Some e"
    by (simp add: mapNotionErrorToMCPError_def read_error_data_def RateLimitError_def
          new_MCPNotionError_def)
  from rate_limit_retry_after[OF s p e] e show ?thesis
    by (simp add: header_retry_after_def body_retry_after_def body_field_def parseInt_def
          is_space_def is_digit_def digits_val_def digit_val_def to_double_def)
qed

text \<open>
  C1, as the specification states it, fails: with a body that has \<^verbatim>\<open>retry_after: 30\<close>
  and a header \<^verbatim>\<open>Retry-After: 10\<close>, the header is still consulted and wins.
\<close>

theorem retry_after_body_first_counterexample:
  "body_retry_after (JObj [(''retry_after'', JNum (Fin 30))]) = Some (Fin 30) \<and>
   map_option retryAfter
     (mapNotionErrorToMCPError
        \<lparr> message = ''429 Too Many Requests'', status = 429,
          data = JObj [(''retry_after'', JNum (Fin 30))],
          headers = Some (map_of [(''Retry-After'', ''10'')]) \<rparr> None None)
     = Some (Some (Fin 10))"
  by (simp add: body_retry_after_def body_field_def mapNotionErrorToMCPError_def
        read_error_data_def retry_after_header_def RateLimitError_def new_MCPNotionError_def
        parseInt_def is_space_def is_digit_def digits_val_def digit_val_def to_double_def
        strip_status_def)

section \<open>Properties of the response transformer\<close>

lemma detectOperationType_total: "\<exists>t. detectOperationType d = Some t"
  by (cases d) (simp_all add: detectOperationType_def)

lemma get_prop_object: "truthy p \<Longrightarrow> is_object p \<Longrightarrow> \<exists>v. get_prop p k = Some v"
  by (cases p) simp_all

lemma extract_unknown:
  assumes "\<forall>t \<in> set known_types. get_prop property ''type'' \<noteq> Some (JStr t)"
  shows "extractNotionValue property = Some property"
proof (cases "truthy property \<and> is_object property")
  case False
  then show ?thesis by (auto simp: extractNotionValue_def)
next
  case True
  then obtain ty where ty: "get_prop property ''type'' = Some ty"
    using get_prop_object by blast
  with assms have "\<forall>t \<in> set known_types. ty \<noteq> JStr t" by simp
  with True ty show ?thesis
    by (simp add: extractNotionValue_def known_types_def)
qed

lemma transformProperties_single:
  "n \<noteq> ''__proto__'' \<Longrightarrow> transformProperties (JObj [(n, p)]) =
     (if truthy p \<and> is_object p then map_option (\<lambda>r. JObj [(n, r)]) (extractNotionValue p)
      else Some (JObj [(n, p)]))"
  by (cases "extractNotionValue p") (simp_all add: transformProperties_def assign_def)

lemma transformObject_all_fields:
  "\<not> fields_given flds \<Longrightarrow> transformObject obj flds = do {
        es \<leftarrow> object_entries obj;
        rs \<leftarrow> mapM (\<lambda>(key, v).
                if isMetadataField key then Some (key, v)
                else if key = ''properties'' \<and> is_object v \<and> v \<noteq> JNull then do {
                  r \<leftarrow> transformProperties v;
                  Some (key, r)
                } else do {
                  r \<leftarrow> transformValue v key;
                  Some (key, r)
                }) es;
        Some (JObj (foldl assign [] rs))
      }"
  by (subst transformObject.simps) simp

lemma reduced_single_property:
  "transform dm (JObj [(''properties'', JObj [(n, p)])])
      \<lparr> mode = Some ''reduced'', fields' = None, operationType = ot \<rparr> =
   map_option (\<lambda>r. JObj [(''properties'', r)]) (transformProperties (JObj [(n, p)]))"
proof -
  obtain t where "detectOperationType (JObj [(''properties'', JObj [(n, p)])]) = Some t"
    using detectOperationType_total by blast
  then show ?thesis
    by (cases "transformProperties (JObj [(n, p)])")
       (simp_all add: transform_def transformObject_all_fields isMetadataField_def assign_def
          split: option.splits)
qed

lemma extract_scalar:
  assumes "t \<in> set [''number'', ''checkbox'', ''url'', ''email'', ''phone_number'']"
      and "map_of kvs ''type'' = Some (JStr t)"
  shows "extractNotionValue (JObj kvs) =
           Some (case map_of kvs t of Some v \<Rightarrow> v | None \<Rightarrow> JUndefined)"
proof -
  from assms(1) have "t = ''number'' \<or> t = ''checkbox'' \<or> t = ''url'' \<or> t = ''email'' \<or>
      t = ''phone_number''"
    by simp
  then show ?thesis
  proof (elim disjE)
    assume "t = ''number''"
    with assms(2) show ?thesis by (simp add: extractNotionValue_def)
  next
    assume "t = ''checkbox''"
    with assms(2) show ?thesis by (simp add: extractNotionValue_def)
  next
    assume "t = ''url''"
    with assms(2) show ?thesis by (simp add: extractNotionValue_def)
  next
    assume "t = ''email''"
    with assms(2) show ?thesis by (simp add: extractNotionValue_def)
  next
    assume "t = ''phone_number''"
    with assms(2) show ?thesis by (simp add: extractNotionValue_def)
  qed
qed

text \<open>
  C7. With mode \<^verbatim>\<open>full\<close>, and with any mode other than \<^verbatim>\<open>full\<close>,
  \<^verbatim>\<open>reduced\<close> and \<^verbatim>\<open>success_only\<close>, \<^verbatim>\<open>transform\<close> returns its input unchanged
  for every input, field list and operation type, whether the mode comes from the
  configuration or from the transformer's default; so transforming the result again changes
  nothing.
\<close>

theorem transform_identity_modes:
  assumes "m = ''full'' \<or> m \<notin> {''full'', ''reduced'', ''success_only''}"
  shows "transform dm d (config\<lparr> mode := Some m \<rparr>) = Some d \<and>
         transform m d (config\<lparr> mode := None \<rparr>) = Some d \<and>
         Option.bind (transform dm d (config\<lparr> mode := Some m \<rparr>))
           (\<lambda>y. transform dm y (config\<lparr> mode := Some m \<rparr>)) = Some d"
proof -
  have "transform dm x (config\<lparr> mode := Some m \<rparr>) = Some x" for x dm
  proof -
    obtain t where "detectOperationType x = Some t"
      using detectOperationType_total by blast
    with assms show ?thesis
      by (auto simp: transform_def split: option.splits)
  qed
  moreover have "transform m d (config\<lparr> mode := None \<rparr>) = Some d"
  proof -
    obtain t where "detectOperationType d = Some t"
      using detectOperationType_total by blast
    with assms show ?thesis
      by (auto simp: transform_def split: option.splits)
  qed
  ultimately show ?thesis by simp
qed

theorem transform_identity_modes_witness:
  "transform ''reduced'' (JObj [(''id'', JStr ''p1'')])
     \<lparr> mode = Some ''full'', fields' = None, operationType = None \<rparr> =
   Some (JObj [(''id'', JStr ''p1'')])"
  using transform_identity_modes
    [of "''full''" "''reduced''" "JObj [(''id'', JStr ''p1'')]"
        "\<lparr> mode = None, fields' = None, operationType = None \<rparr>"]
  by simp

text \<open>
  C10. In mode \<^verbatim>\<open>success_only\<close> an object without an \<^verbatim>\<open>id\<close> property, whatever
  else it carries (a \<^verbatim>\<open>results\<close> array included), becomes exactly
  \<^verbatim>\<open>{success: true}\<close>: the count and the message are written in the \<^verbatim>\<open>id\<close> branch
  and in the array branch only.
\<close>

theorem success_only_without_id:
  assumes "''id'' \<notin> set (map fst kvs)"
  shows "transform dm (JObj kvs) (config\<lparr> mode := Some ''success_only'' \<rparr>) =
           Some (JObj [(''success'', JBool True)])"
proof -
  obtain t where "detectOperationType (JObj kvs) = Some t"
    using detectOperationType_total by blast
  moreover have "transformSuccessOnly (JObj kvs) ot = Some (JObj [(''success'', JBool True)])" for ot
    using assms by (simp add: transformSuccessOnly_def)
  ultimately show ?thesis
    by (auto simp: transform_def split: option.splits)
qed

theorem success_only_without_id_witness:
  "transform ''full''
     (JObj [(''object'', JStr ''list''),
            (''results'', JArr [JNum (Fin 1), JNum (Fin 2), JNum (Fin 3)]),
            (''has_more'', JBool False)])
     \<lparr> mode = Some ''success_only'', fields' = None, operationType = None \<rparr> =
   Some (JObj [(''success'', JBool True)])"
  using success_only_without_id
    [of "[(''object'', JStr ''list''),
          (''results'', JArr [JNum (Fin 1), JNum (Fin 2), JNum (Fin 3)]),
          (''has_more'', JBool False)]"
        "''full''" "\<lparr> mode = None, fields' = None, operationType = None \<rparr>"]
  by simp

text \<open>
  C6. A property value whose \<^verbatim>\<open>type\<close> is none of the tags that have a
  \<^verbatim>\<open>case\<close> is returned by \<^verbatim>\<open>extractNotionValue\<close> as it is, and so stays as it is
  under \<^verbatim>\<open>properties\<close> in the reduced format, under every property name but
  \<^verbatim>\<open>__proto__\<close>, which no assignment can store.
\<close>

theorem unknown_type_unchanged:
  assumes "\<forall>t \<in> set known_types. get_prop property ''type'' \<noteq> Some (JStr t)"
  shows "extractNotionValue property = Some property \<and>
         (n \<noteq> ''__proto__'' \<longrightarrow>
          transform dm (JObj [(''properties'', JObj [(n, property)])])
            \<lparr> mode = Some ''reduced'', fields' = None, operationType = ot \<rparr> =
            Some (JObj [(''properties'', JObj [(n, property)])]))"
  using extract_unknown[OF assms]
  by (simp add: reduced_single_property transformProperties_single)

theorem unknown_type_unchanged_witness:
  "extractNotionValue (JObj [(''id'', JStr ''a1''), (''type'', JStr ''button''),
                             (''button'', JObj [])]) =
     Some (JObj [(''id'', JStr ''a1''), (''type'', JStr ''button''), (''button'', JObj [])]) \<and>
   transform ''full''
     (JObj [(''properties'',
             JObj [(''Run'', JObj [(''id'', JStr ''a1''), (''type'', JStr ''button''),
                                  (''button'', JObj [])])])])
     \<lparr> mode = Some ''reduced'', fields' = None, operationType = None \<rparr> =
     Some (JObj [(''properties'',
                  JObj [(''Run'', JObj [(''id'', JStr ''a1''), (''type'', JStr ''button''),
                                       (''button'', JObj [])])])])"
  using unknown_type_unchanged
    [of "JObj [(''id'', JStr ''a1''), (''type'', JStr ''button''), (''button'', JObj [])]"
        "''Run''" "''full''" None]
  by (simp add: known_types_def)

text \<open>
  C9. A property value whose \<^verbatim>\<open>type\<close> is \<^verbatim>\<open>number\<close>, \<^verbatim>\<open>checkbox\<close>,
  \<^verbatim>\<open>url\<close>, \<^verbatim>\<open>email\<close> or \<^verbatim>\<open>phone_number\<close> (the phone type) is replaced by
  its property of that name, unchanged (\<^verbatim>\<open>undefined\<close> when it has none), by
  \<^verbatim>\<open>extractNotionValue\<close>, and so in the reduced format under every property name but
  \<^verbatim>\<open>__proto__\<close>.
\<close>

theorem scalar_payload_unchanged:
  assumes "t \<in> set [''number'', ''checkbox'', ''url'', ''email'', ''phone_number'']"
      and "map_of kvs ''type'' = Some (JStr t)"
  shows "extractNotionValue (JObj kvs) =
           Some (case map_of kvs t of Some v \<Rightarrow> v | None \<Rightarrow> JUndefined) \<and>
         (n \<noteq> ''__proto__'' \<longrightarrow>
          transform dm (JObj [(''properties'', JObj [(n, JObj kvs)])])
            \<lparr> mode = Some ''reduced'', fields' = None, operationType = ot \<rparr> =
            Some (JObj [(''properties'',
                         JObj [(n, case map_of kvs t of Some v \<Rightarrow> v | None \<Rightarrow> JUndefined)])]))"
  using extract_scalar[OF assms]
  by (simp add: reduced_single_property transformProperties_single)

theorem scalar_payload_unchanged_witness:
  "extractNotionValue (JObj [(''type'', JStr ''phone_number''),
                             (''phone_number'', JStr ''555-0100'')]) =
     Some (JStr ''555-0100'') \<and>
   transform ''full''
     (JObj [(''properties'',
             JObj [(''Phone'', JObj [(''type'', JStr ''phone_number''),
                                    (''phone_number'', JStr ''555-0100'')])])])
     \<lparr> mode = Some ''reduced'', fields' = None, operationType = None \<rparr> =
     Some (JObj [(''properties'', JObj [(''Phone'', JStr ''555-0100'')])])"
  using scalar_payload_unchanged
    [of "''phone_number''"
        "[(''type'', JStr ''phone_number''), (''phone_number'', JStr ''555-0100'')]"
        "''Phone''" "''full''" None]
  by simp

text \<open>
  C2 at a failing input. In the reduced format a \<^verbatim>\<open>title\<close> array with a
  \<^verbatim>\<open>null\<close> element makes the callback read \<^verbatim>\<open>t.type\<close> of \<^verbatim>\<open>null\<close>, and a
  \<^verbatim>\<open>results\<close> array with a \<^verbatim>\<open>null\<close> element reaches
  \<^verbatim>\<open>Object.entries(null)\<close>: both throw.
\<close>

theorem reduced_throws_on_null_element:
  "transform ''full''
     (JObj [(''properties'',
             JObj [(''Name'', JObj [(''type'', JStr ''title''), (''title'', JArr [JNull])])])])
     \<lparr> mode = Some ''reduced'', fields' = None, operationType = None \<rparr> = None \<and>
   transform ''full'' (JObj [(''results'', JArr [JNull])])
     \<lparr> mode = Some ''reduced'', fields' = None, operationType = None \<rparr> = None"
  by code_simp

text \<open>
  C3 at a failing input. With the field list \<^verbatim>\<open>['properties']\<close> the reduced format
  keeps the property value under \<^verbatim>\<open>properties\<close> whole, where the pass without a field
  list extracts its name.
\<close>

theorem fields_skip_property_extraction:
  "transform ''full''
     (JObj [(''id'', JStr ''p1''),
            (''properties'',
             JObj [(''Status'', JObj [(''type'', JStr ''select''),
                                      (''select'', JObj [(''name'', JStr ''Done'')])])])])
     \<lparr> mode = Some ''reduced'', fields' = Some [''properties''], operationType = None \<rparr> =
     Some (JObj [(''properties'',
                  JObj [(''Status'', JObj [(''type'', JStr ''select''),
                                           (''select'', JObj [(''name'', JStr ''Done'')])])])]) \<and>
   transform ''full''
     (JObj [(''id'', JStr ''p1''),
            (''properties'',
             JObj [(''Status'', JObj [(''type'', JStr ''select''),
                                      (''select'', JObj [(''name'', JStr ''Done'')])])])])
     \<lparr> mode = Some ''reduced'', fields' = None, operationType = None \<rparr> =
     Some (JObj [(''id'', JStr ''p1''), (''properties'', JObj [(''Status'', JStr ''Done'')])])"
  by code_simp

end
